theory Spec2Isabelle
  imports Main
begin

section \<open>Values, request descriptors and errors\<close>

text \<open>
  The payloads the client reads are JSON values. Only the shapes the two source files
  inspect are modelled: a missing member (\<open>undefined\<close>), \<open>null\<close>, a string and an object.
  The client passes a response through without looking at it; it looks into a payload in
  two places only (\<open>response.data.data\<close> in the refresh step and in \<open>refreshUser\<close>).
\<close>

datatype json = JUndefined | JNull | JStr string | JObj "(string \<times> json) list"

text \<open>
  An axios request descriptor. \<open>http_method\<close> is the descriptor's \<open>method\<close> member,
  \<open>req_data\<close> its \<open>data\<close> member (the request body), and \<open>retry\<close> the \<open>_retry\<close>
  marker the response interceptor sets; a descriptor built by a caller has no marker,
  which reads as false.
\<close>

record config =
  baseURL :: "string option"
  url :: string
  http_method :: string
  headers :: "string \<rightharpoonup> string"
  req_data :: json
  retry :: bool

record response =
  status :: nat
  data :: json

text \<open>
  What a rejected promise carries: an axios error with its \<open>config\<close> and, when the
  backend answered, its \<open>response\<close>; or the \<open>TypeError\<close> JavaScript raises when a member
  of \<open>undefined\<close> or \<open>null\<close> is read.
\<close>

datatype error = AxiosError config "response option" | TypeError

text \<open>What comes back from the network for one request: an answer, or nothing.\<close>

datatype reply = Reply response | NoReply

text \<open>
  The observable events, in the order they happen: a descriptor handed to the network,
  the two state setters of the session store, and \<open>console.error\<close>.
\<close>

datatype event = Sent config | SetUser json | SetIsLoading bool | ConsoleError error

text \<open>
  The browser state the two files touch: \<open>localStorage\<close>, \<open>window.location.href\<close>,
  the session store's \<open>user\<close> and \<open>isLoading\<close>, and the events so far.
\<close>

record world =
  localStorage :: "string \<rightharpoonup> string"
  href :: string
  user :: json
  isLoading :: bool
  trace :: "event list"

text \<open>
  The backend and the network together: the reply to a descriptor, given everything that
  happened before. It is a parameter of every operation.
\<close>

type_synonym server = "event list \<Rightarrow> config \<Rightarrow> reply"

type_synonym 'a promise = "(error + 'a) \<times> world"

section \<open>JavaScript and browser primitives\<close>

definition getItem :: "world \<Rightarrow> string \<Rightarrow> string option" where
  "getItem w k = localStorage w k"

definition setItem :: "string \<Rightarrow> string \<Rightarrow> world \<Rightarrow> world" where
  "setItem k v w = w\<lparr>localStorage := (localStorage w)(k \<mapsto> v)\<rparr>"

definition removeItem :: "string \<Rightarrow> world \<Rightarrow> world" where
  "removeItem k w = w\<lparr>localStorage := (localStorage w)(k := None)\<rparr>"

text \<open>\<open>if (token)\<close> on the result of \<open>getItem\<close>: \<open>null\<close> and the empty string are falsy.\<close>

fun truthy :: "string option \<Rightarrow> bool" where
  "truthy None = False"
| "truthy (Some s) = (s \<noteq> [])"

text \<open>
  Reading member \<open>k\<close> of a value: a \<open>TypeError\<close> on \<open>undefined\<close> and \<open>null\<close>,
  \<open>undefined\<close> when a string or an object has no such member.
\<close>

fun get_prop :: "json \<Rightarrow> string \<Rightarrow> error + json" where
  "get_prop JUndefined k = Inl TypeError"
| "get_prop JNull k = Inl TypeError"
| "get_prop (JStr s) k = Inr JUndefined"
| "get_prop (JObj kvs) k = (case map_of kvs k of None \<Rightarrow> Inr JUndefined | Some v \<Rightarrow> Inr v)"

text \<open>
  The string a value becomes inside a template literal and as an argument of
  \<open>localStorage.setItem\<close>.
\<close>

fun to_string :: "json \<Rightarrow> string" where
  "to_string JUndefined = ''undefined''"
| "to_string JNull = ''null''"
| "to_string (JStr s) = s"
| "to_string (JObj kvs) = ''[object Object]''"

section \<open>The axios library, as far as the client relies on it\<close>

text \<open>
  \<open>axios.create\<close> in \<open>api.ts\<close> gives the instance a base URL and a content type.
  On every call the instance merges its defaults under the descriptor it is given; every
  other member of the descriptor, the marker included, is kept.
\<close>

definition api_baseURL :: string where
  "api_baseURL = ''/api/v1''"

definition api_headers :: "string \<rightharpoonup> string" where
  "api_headers = [''Content-Type'' \<mapsto> ''application/json'']"

definition mergeConfig :: "config \<Rightarrow> config" where
  "mergeConfig cfg =
     cfg\<lparr>baseURL := (case baseURL cfg of None \<Rightarrow> Some api_baseURL | Some b \<Rightarrow> Some b),
         headers := api_headers ++ headers cfg\<rparr>"

text \<open>Handing a descriptor to the network: the reply, and the event recorded.\<close>

definition dispatch :: "server \<Rightarrow> world \<Rightarrow> config \<Rightarrow> reply \<times> world" where
  "dispatch srv w cfg = (srv (trace w) cfg, w\<lparr>trace := trace w @ [Sent cfg]\<rparr>)"

text \<open>
  axios resolves a reply whose status is 2xx and rejects every other one with an error
  that carries the descriptor and the response; no reply at all is an error without a
  response.
\<close>

definition settle :: "config \<Rightarrow> reply \<Rightarrow> error + response" where
  "settle cfg rep =
     (case rep of
        NoReply \<Rightarrow> Inl (AxiosError cfg None)
      | Reply r \<Rightarrow>
          if 200 \<le> status r \<and> status r < 300 then Inr r
          else Inl (AxiosError cfg (Some r)))"

text \<open>
  \<open>axios.post(url, data)\<close> on the library's default instance, which \<open>api.ts\<close> gives no
  defaults and no interceptors: the descriptor goes to the network as it is and the
  outcome comes back as it is.
\<close>

definition axios_post :: "server \<Rightarrow> world \<Rightarrow> string \<Rightarrow> json \<Rightarrow> response promise" where
  "axios_post srv w u d =
     (let cfg = \<lparr>baseURL = None, url = u, http_method = ''post'', headers = Map.empty,
                 req_data = d, retry = False\<rparr>;
          (rep, w1) = dispatch srv w cfg
      in (settle cfg rep, w1))"

section \<open>The client of api.ts\<close>

text \<open>The request interceptor (lines 11 to 18).\<close>

definition request_interceptor :: "world \<Rightarrow> config \<Rightarrow> config" where
  "request_interceptor w cfg =
     (case getItem w ''access_token'' of
        None \<Rightarrow> cfg
      | Some token \<Rightarrow>
          if token \<noteq> [] then cfg\<lparr>headers := (headers cfg)(''Authorization'' \<mapsto> ''Bearer '' @ token)\<rparr>
          else cfg)"

text \<open>
  The three statements both logout branches of the response interceptor run
  (lines 38 to 40 and 60 to 62).
\<close>

definition clear_and_redirect :: "world \<Rightarrow> world" where
  "clear_and_redirect w =
     (removeItem ''refresh_token'' (removeItem ''access_token'' w))\<lparr>href := ''/auth''\<rparr>"

text \<open>
  Line 48: \<open>const { access_token, refresh_token: new_refresh_token } = response.data.data\<close>.
  It raises when \<open>response.data\<close> or \<open>response.data.data\<close> is \<open>undefined\<close> or \<open>null\<close>.
\<close>

definition destructure :: "response \<Rightarrow> error + (json \<times> json)" where
  "destructure r =
     (case get_prop (data r) ''data'' of
        Inl e \<Rightarrow> Inl e
      | Inr d \<Rightarrow>
          (case get_prop d ''access_token'' of
             Inl e \<Rightarrow> Inl e
           | Inr a \<Rightarrow>
               (case get_prop d ''refresh_token'' of
                  Inl e \<Rightarrow> Inl e
                | Inr n \<Rightarrow> Inr (a, n))))"

text \<open>
  \<open>error.response?.status === 401\<close>.
\<close>

fun is_401 :: "error \<Rightarrow> bool" where
  "is_401 (AxiosError cfg (Some r)) = (status r = 401)"
| "is_401 (AxiosError cfg None) = False"
| "is_401 TypeError = False"

text \<open>
  \<open>api(config)\<close>: the instance merges its defaults, runs the request interceptor, sends,
  and runs the response interceptor on the outcome. \<open>on_rejected\<close> is the response
  interceptor's second handler (lines 27 to 67); its last statement on the refresh path
  is \<open>return api(originalRequest)\<close>, so the two are mutually recursive. A rejection of
  that returned promise is not caught by the surrounding \<open>try\<close>, which only covers what
  is awaited inside it.
\<close>

function api :: "server \<Rightarrow> world \<Rightarrow> config \<Rightarrow> response promise"
  and on_rejected :: "server \<Rightarrow> world \<Rightarrow> error \<Rightarrow> response promise"
where
  "api srv w c =
     (let cfg = request_interceptor w (mergeConfig c);
          (rep, w1) = dispatch srv w cfg
      in case settle cfg rep of
           Inr r \<Rightarrow> (Inr r, w1)
         | Inl e \<Rightarrow> on_rejected srv w1 e)"
| "on_rejected srv w TypeError = (Inl TypeError, w)"
| "on_rejected srv w (AxiosError c resp) =
     (if is_401 (AxiosError c resp) \<and> \<not> retry c then
        let originalRequest = c\<lparr>retry := True\<rparr>;
            err = AxiosError originalRequest resp
        in case getItem w ''refresh_token'' of
             None \<Rightarrow> (Inl err, clear_and_redirect w)
           | Some refreshToken \<Rightarrow>
               if refreshToken = [] then (Inl err, clear_and_redirect w)
               else
                 (case axios_post srv w ''/api/v1/auth/refresh''
                         (JObj [(''refresh_token'', JStr refreshToken)]) of
                    (Inl refreshError, w1) \<Rightarrow> (Inl refreshError, clear_and_redirect w1)
                  | (Inr r, w1) \<Rightarrow>
                      (case destructure r of
                         Inl refreshError \<Rightarrow> (Inl refreshError, clear_and_redirect w1)
                       | Inr (access_token, new_refresh_token) \<Rightarrow>
                           api srv
                             (setItem ''refresh_token'' (to_string new_refresh_token)
                                (setItem ''access_token'' (to_string access_token) w1))
                             (originalRequest\<lparr>headers := (headers originalRequest)
                                (''Authorization'' \<mapsto> ''Bearer '' @ to_string access_token)\<rparr>)))
      else (Inl (AxiosError c resp), w))"
  by pat_completeness auto

text \<open>
  The recursion ends: \<open>api\<close> is re-entered only from a descriptor without the marker,
  with a descriptor that carries it.
\<close>

termination
  apply (relation "measure (\<lambda>x. case x of
            Inl (srv, w, c) \<Rightarrow> (if retry c then 1 else 3)
          | Inr (srv, w, e) \<Rightarrow>
              (case e of AxiosError c resp \<Rightarrow> (if retry c then 0 else 2) | TypeError \<Rightarrow> 0))")
    apply simp
  subgoal for srv w c cfg x rep w1 e
    by (cases e)
      (auto simp: settle_def request_interceptor_def mergeConfig_def
            split: reply.splits if_splits option.splits)
  subgoal
    by auto
  done

section \<open>The session store\<close>

text \<open>
  The provider of the authentication context: the state setters, \<open>logout\<close>,
  \<open>refreshUser\<close> and the start-up effect \<open>initAuth\<close>. \<open>api.get(url)\<close> is the
  instance called with a descriptor that has the URL and the method only.
\<close>

definition setUser :: "json \<Rightarrow> world \<Rightarrow> world" where
  "setUser u w = w\<lparr>user := u, trace := trace w @ [SetUser u]\<rparr>"

definition setIsLoading :: "bool \<Rightarrow> world \<Rightarrow> world" where
  "setIsLoading b w = w\<lparr>isLoading := b, trace := trace w @ [SetIsLoading b]\<rparr>"

definition console_error :: "error \<Rightarrow> world \<Rightarrow> world" where
  "console_error e w = w\<lparr>trace := trace w @ [ConsoleError e]\<rparr>"

definition get_config :: "string \<Rightarrow> config" where
  "get_config u =
     \<lparr>baseURL = None, url = u, http_method = ''get'', headers = Map.empty,
      req_data = JUndefined, retry = False\<rparr>"

definition api_get :: "server \<Rightarrow> world \<Rightarrow> string \<Rightarrow> response promise" where
  "api_get srv w u = api srv w (get_config u)"

definition logout :: "world \<Rightarrow> world" where
  "logout w = setUser JNull (removeItem ''refresh_token'' (removeItem ''access_token'' w))"

definition refreshUser :: "server \<Rightarrow> world \<Rightarrow> world" where
  "refreshUser srv w =
     (case api_get srv w ''/users/me'' of
        (Inl e, w1) \<Rightarrow> logout (console_error e w1)
      | (Inr r, w1) \<Rightarrow>
          (case get_prop (data r) ''data'' of
             Inl e \<Rightarrow> logout (console_error e w1)
           | Inr u \<Rightarrow> setUser u w1))"

definition initAuth :: "server \<Rightarrow> world \<Rightarrow> world" where
  "initAuth srv w =
     (let token = getItem w ''access_token'';
          w1 = (if truthy token then refreshUser srv w else w)
      in setIsLoading False w1)"

section \<open>Vocabulary of the statements\<close>

text \<open>
  Names for what the statements below talk about: the world after a descriptor has gone
  to the network, the descriptor the instance puts on the wire for a call, and the
  descriptor of the dedicated refresh call.
\<close>

definition sent :: "config \<Rightarrow> world \<Rightarrow> world" where
  "sent cfg w = w\<lparr>trace := trace w @ [Sent cfg]\<rparr>"

definition outgoing :: "world \<Rightarrow> config \<Rightarrow> config" where
  "outgoing w c = request_interceptor w (mergeConfig c)"

definition refresh_config :: "string \<Rightarrow> config" where
  "refresh_config rt =
     \<lparr>baseURL = None, url = ''/api/v1/auth/refresh'', http_method = ''post'', headers = Map.empty,
      req_data = JObj [(''refresh_token'', JStr rt)], retry = False\<rparr>"

text \<open>
  On the refresh path: the world after the new pair has been stored (lines 50 and 51),
  and the original descriptor with the marker set and its authorization header replaced
  (lines 32 and 54).
\<close>

definition store_pair :: "json \<Rightarrow> json \<Rightarrow> world \<Rightarrow> world" where
  "store_pair av nv w =
     setItem ''refresh_token'' (to_string nv) (setItem ''access_token'' (to_string av) w)"

definition resend_config :: "config \<Rightarrow> json \<Rightarrow> config" where
  "resend_config cfg av =
     cfg\<lparr>retry := True,
         headers := (headers cfg)(''Authorization'' \<mapsto> ''Bearer '' @ to_string av)\<rparr>"

text \<open>
  The dedicated refresh call is the only request that goes out without the instance's
  base URL.
\<close>

fun is_refresh_call :: "event \<Rightarrow> bool" where
  "is_refresh_call (Sent cfg) = (baseURL cfg = None \<and> url cfg = ''/api/v1/auth/refresh'')"
| "is_refresh_call (SetUser u) = False"
| "is_refresh_call (SetIsLoading b) = False"
| "is_refresh_call (ConsoleError e) = False"

definition refresh_calls :: "event list \<Rightarrow> nat" where
  "refresh_calls evs = length (filter is_refresh_call evs)"

text \<open>The events that are calls of a state setter of the session store.\<close>

fun is_setter :: "event \<Rightarrow> bool" where
  "is_setter (Sent cfg) = False"
| "is_setter (SetUser u) = True"
| "is_setter (SetIsLoading b) = True"
| "is_setter (ConsoleError e) = False"

section \<open>Concrete backends and requests\<close>

text \<open>
  The scenario of the specification: a request for the list of podcasts, issued while the
  pair \<open>a1\<close>/\<open>r1\<close> is stored; and a world in which nothing is stored.
\<close>

definition podcasts_request :: config where
  "podcasts_request =
     \<lparr>baseURL = None, url = ''/podcasts/'', http_method = ''get'', headers = Map.empty,
      req_data = JUndefined, retry = False\<rparr>"

definition stored_world :: world where
  "stored_world =
     \<lparr>localStorage = [''access_token'' \<mapsto> ''a1'', ''refresh_token'' \<mapsto> ''r1''],
      href = ''/dashboard'', user = JNull, isLoading = True, trace = []\<rparr>"

definition empty_world :: world where
  "empty_world =
     \<lparr>localStorage = Map.empty, href = ''/dashboard'', user = JNull, isLoading = True,
      trace = []\<rparr>"

definition podcast_list :: response where
  "podcast_list =
     \<lparr>status = 200,
      data = JObj [(''message'', JStr ''ok''), (''data'', JObj [(''total'', JStr ''0'')])]\<rparr>"

definition new_pair :: response where
  "new_pair =
     \<lparr>status = 200,
      data = JObj [(''message'', JStr ''ok''),
                   (''data'', JObj [(''access_token'', JStr ''a2''),
                                    (''refresh_token'', JStr ''r2''),
                                    (''token_type'', JStr ''bearer'')])]\<rparr>"

definition unauthorized :: response where
  "unauthorized = \<lparr>status = 401, data = JObj [(''detail'', JStr ''Not authenticated'')]\<rparr>"

definition unavailable :: response where
  "unavailable = \<lparr>status = 503, data = JObj [(''detail'', JStr ''Service unavailable'')]\<rparr>"

text \<open>A backend that answers every request with the list.\<close>

definition backend_open :: server where
  "backend_open lg cfg = Reply podcast_list"

text \<open>A backend that answers every request with 503.\<close>

definition backend_down :: server where
  "backend_down lg cfg = Reply unavailable"

text \<open>
  A backend on which \<open>a1\<close> has expired: the refresh endpoint exchanges \<open>r1\<close> for the
  pair \<open>a2\<close>/\<open>r2\<close>, and every other endpoint answers the bearer \<open>a2\<close> only.
\<close>

definition backend_rotating :: server where
  "backend_rotating lg cfg =
     (if url cfg = ''/api/v1/auth/refresh'' then
        (if req_data cfg = JObj [(''refresh_token'', JStr ''r1'')] then Reply new_pair
         else Reply unauthorized)
      else if headers cfg ''Authorization'' = Some ''Bearer a2'' then Reply podcast_list
      else Reply unauthorized)"

text \<open>
  A backend whose refresh endpoint hands out the new pair while every other endpoint
  keeps answering 401, whatever the bearer.
\<close>

definition backend_rejecting :: server where
  "backend_rejecting lg cfg =
     (if url cfg = ''/api/v1/auth/refresh'' then Reply new_pair else Reply unauthorized)"

text \<open>A backend that answers every request, the refresh call included, with 401.\<close>

definition backend_revoked :: server where
  "backend_revoked lg cfg = Reply unauthorized"

text \<open>
  The second half of the scenario: the world in which the resend is issued once the
  refresh call has returned \<open>a2\<close>/\<open>r2\<close>, and the descriptor that is resent.
\<close>

definition rotated_world :: world where
  "rotated_world =
     store_pair (JStr ''a2'') (JStr ''r2'')
       (sent (refresh_config ''r1'') (sent (outgoing stored_world podcasts_request) stored_world))"

definition podcasts_resend :: config where
  "podcasts_resend = resend_config (outgoing stored_world podcasts_request) (JStr ''a2'')"

text \<open>
  A descriptor to which the caller has given an authorization header of its own.
\<close>

definition preauthorized_request :: config where
  "preauthorized_request = podcasts_request\<lparr>headers := [''Authorization'' \<mapsto> ''Basic dXNlcg=='']\<rparr>"

text \<open>A backend that knows the bearer \<open>a1\<close> and answers it with the user's profile.\<close>

definition profile :: response where
  "profile =
     \<lparr>status = 200,
      data = JObj [(''message'', JStr ''ok''),
                   (''data'', JObj [(''id'', JStr ''u1''), (''email'', JStr ''u1@example.org'')])]\<rparr>"

definition backend_session :: server where
  "backend_session lg cfg =
     (if headers cfg ''Authorization'' = Some ''Bearer a1'' then Reply profile
      else Reply unauthorized)"

section \<open>Unfolding the client\<close>

declare api.simps [simp del] on_rejected.simps [simp del]

text \<open>
  Neither the request interceptor nor the merge of the defaults touches the marker, and
  the error axios builds carries the descriptor that was sent.
\<close>

lemma retry_request_interceptor: "retry (request_interceptor w c) = retry c"
  by (simp add: request_interceptor_def split: option.splits)

lemma retry_mergeConfig: "retry (mergeConfig c) = retry c"
  by (simp add: mergeConfig_def)

lemma settle_error_config: "settle cfg rep = Inl (AxiosError c' resp) \<Longrightarrow> c' = cfg"
  by (auto simp: settle_def split: reply.splits if_splits)

lemma sent_fields [simp]:
  "localStorage (sent cfg w) = localStorage w"
  "href (sent cfg w) = href w"
  "user (sent cfg w) = user w"
  "isLoading (sent cfg w) = isLoading w"
  "trace (sent cfg w) = trace w @ [Sent cfg]"
  by (simp_all add: sent_def)

lemma dispatch_sent: "dispatch srv w cfg = (srv (trace w) cfg, sent cfg w)"
  by (simp add: dispatch_def sent_def)

lemma retry_outgoing: "retry (outgoing w c) = retry c"
  by (simp add: outgoing_def retry_request_interceptor retry_mergeConfig)

lemma api_unfold:
  "api srv w c =
     (case settle (outgoing w c) (srv (trace w) (outgoing w c)) of
        Inr r \<Rightarrow> (Inr r, sent (outgoing w c) w)
      | Inl e \<Rightarrow> on_rejected srv (sent (outgoing w c) w) e)"
  unfolding outgoing_def by (simp add: api.simps [of srv w c] dispatch_sent Let_def)

lemma axios_post_refresh:
  "axios_post srv w ''/api/v1/auth/refresh'' (JObj [(''refresh_token'', JStr rt)]) =
     (settle (refresh_config rt) (srv (trace w) (refresh_config rt)), sent (refresh_config rt) w)"
  by (simp add: axios_post_def dispatch_sent refresh_config_def Let_def)

lemma on_rejected_surface:
  "\<not> is_401 e \<or> (\<exists>c resp. e = AxiosError c resp \<and> retry c) \<Longrightarrow> on_rejected srv w e = (Inl e, w)"
  by (cases e) (auto simp: on_rejected.simps)

lemma on_rejected_no_token:
  "is_401 (AxiosError c resp) \<Longrightarrow> \<not> retry c \<Longrightarrow> \<not> truthy (getItem w ''refresh_token'') \<Longrightarrow>
   on_rejected srv w (AxiosError c resp) =
     (Inl (AxiosError (c\<lparr>retry := True\<rparr>) resp), clear_and_redirect w)"
  by (cases "getItem w ''refresh_token''") (simp_all add: on_rejected.simps)

lemma on_rejected_refresh_failed:
  "is_401 (AxiosError c resp) \<Longrightarrow> \<not> retry c \<Longrightarrow> getItem w ''refresh_token'' = Some rt \<Longrightarrow> rt \<noteq> [] \<Longrightarrow>
   settle (refresh_config rt) (srv (trace w) (refresh_config rt)) = Inl e2 \<Longrightarrow>
   on_rejected srv w (AxiosError c resp) = (Inl e2, clear_and_redirect (sent (refresh_config rt) w))"
  by (simp add: on_rejected.simps axios_post_refresh)

lemma on_rejected_refresh_malformed:
  "is_401 (AxiosError c resp) \<Longrightarrow> \<not> retry c \<Longrightarrow> getItem w ''refresh_token'' = Some rt \<Longrightarrow> rt \<noteq> [] \<Longrightarrow>
   settle (refresh_config rt) (srv (trace w) (refresh_config rt)) = Inr r2 \<Longrightarrow>
   destructure r2 = Inl e2 \<Longrightarrow>
   on_rejected srv w (AxiosError c resp) = (Inl e2, clear_and_redirect (sent (refresh_config rt) w))"
  by (simp add: on_rejected.simps axios_post_refresh)

lemma on_rejected_refreshed:
  "is_401 (AxiosError c resp) \<Longrightarrow> \<not> retry c \<Longrightarrow> getItem w ''refresh_token'' = Some rt \<Longrightarrow> rt \<noteq> [] \<Longrightarrow>
   settle (refresh_config rt) (srv (trace w) (refresh_config rt)) = Inr r2 \<Longrightarrow>
   destructure r2 = Inr (av, nv) \<Longrightarrow>
   on_rejected srv w (AxiosError c resp) =
     api srv
       (setItem ''refresh_token'' (to_string nv)
          (setItem ''access_token'' (to_string av) (sent (refresh_config rt) w)))
       (c\<lparr>retry := True,
          headers := (headers c)(''Authorization'' \<mapsto> ''Bearer '' @ to_string av)\<rparr>)"
  by (simp add: on_rejected.simps axios_post_refresh)

lemma api_marked:
  assumes "retry c"
  shows "api srv w c = (settle (outgoing w c) (srv (trace w) (outgoing w c)), sent (outgoing w c) w)"
proof (cases "settle (outgoing w c) (srv (trace w) (outgoing w c))")
  case (Inr r)
  then show ?thesis by (simp add: api_unfold)
next
  case (Inl e)
  have "on_rejected srv (sent (outgoing w c) w) e = (Inl e, sent (outgoing w c) w)"
  proof (cases e)
    case (AxiosError c' resp)
    with Inl have "c' = outgoing w c" by (auto dest: settle_error_config)
    with AxiosError assms show ?thesis
      by (intro on_rejected_surface) (simp add: retry_outgoing)
  next
    case TypeError
    then show ?thesis by (simp add: on_rejected_surface)
  qed
  with Inl show ?thesis by (simp add: api_unfold)
qed
lemma clear_and_redirect_fields [simp]:
  "localStorage (clear_and_redirect w) ''access_token'' = None"
  "localStorage (clear_and_redirect w) ''refresh_token'' = None"
  "href (clear_and_redirect w) = ''/auth''"
  "user (clear_and_redirect w) = user w"
  "isLoading (clear_and_redirect w) = isLoading w"
  "trace (clear_and_redirect w) = trace w"
  by (simp_all add: clear_and_redirect_def removeItem_def)

lemma store_pair_fields [simp]:
  "localStorage (store_pair av nv w) ''access_token'' = Some (to_string av)"
  "localStorage (store_pair av nv w) ''refresh_token'' = Some (to_string nv)"
  "getItem (store_pair av nv w) ''access_token'' = Some (to_string av)"
  "href (store_pair av nv w) = href w"
  "user (store_pair av nv w) = user w"
  "isLoading (store_pair av nv w) = isLoading w"
  "trace (store_pair av nv w) = trace w"
  by (simp_all add: store_pair_def setItem_def getItem_def)

lemma resend_config_fields [simp]:
  "retry (resend_config cfg av)"
  "headers (resend_config cfg av) ''Authorization'' = Some (''Bearer '' @ to_string av)"
  "baseURL (resend_config cfg av) = baseURL cfg"
  "url (resend_config cfg av) = url cfg"
  "http_method (resend_config cfg av) = http_method cfg"
  "req_data (resend_config cfg av) = req_data cfg"
  by (simp_all add: resend_config_def)

lemma baseURL_mergeConfig: "baseURL (mergeConfig c) \<noteq> None"
  by (simp add: mergeConfig_def split: option.splits)

lemma baseURL_outgoing [simp]: "baseURL (outgoing w c) \<noteq> None"
  using baseURL_mergeConfig [of c]
  by (simp add: outgoing_def request_interceptor_def split: option.splits)

lemma baseURL_refresh_config [simp]: "baseURL (refresh_config rt) = None"
  by (simp add: refresh_config_def)

lemma url_refresh_config [simp]: "url (refresh_config rt) = ''/api/v1/auth/refresh''"
  by (simp add: refresh_config_def)

lemma content_type_merged: "(api_headers ++ h) ''Content-Type'' \<noteq> None"
  by (simp add: api_headers_def map_add_def split: option.splits)

lemma api_headers_absorbed:
  assumes "h ''Content-Type'' \<noteq> None"
  shows "api_headers ++ h = h"
proof
  fix k
  show "(api_headers ++ h) k = h k"
    using assms by (cases "h k") (auto simp: api_headers_def map_add_def)
qed

lemma content_type_outgoing: "headers (outgoing w c) ''Content-Type'' \<noteq> None"
proof -
  have "headers (mergeConfig c) ''Content-Type'' \<noteq> None"
    using content_type_merged [of "headers c"] by (simp add: mergeConfig_def)
  then show ?thesis
    by (cases "getItem w ''access_token''") (simp_all add: outgoing_def request_interceptor_def)
qed

lemma mergeConfig_resend:
  "mergeConfig (resend_config (outgoing w c) av) = resend_config (outgoing w c) av"
proof -
  obtain b where b: "baseURL (outgoing w c) = Some b"
    using baseURL_outgoing [of w c] by (cases "baseURL (outgoing w c)") auto
  have "api_headers ++ headers (resend_config (outgoing w c) av)
          = headers (resend_config (outgoing w c) av)"
    using content_type_outgoing [of w c]
    by (intro api_headers_absorbed) (simp add: resend_config_def)
  with b show ?thesis
    by (simp add: mergeConfig_def resend_config_def)
qed

lemma request_interceptor_resend:
  "getItem w ''access_token'' = Some (to_string av) \<Longrightarrow>
   request_interceptor w (resend_config cfg av) = resend_config cfg av"
  by (simp add: request_interceptor_def resend_config_def)

lemma outgoing_resend:
  "outgoing (store_pair av nv w') (resend_config (outgoing w c) av) = resend_config (outgoing w c) av"
  by (simp add: outgoing_def [of _ "resend_config (outgoing w c) av"] mergeConfig_resend
      request_interceptor_resend)

lemma on_rejected_refreshed_resend:
  assumes "is_401 (AxiosError c resp)" and "\<not> retry c"
      and "getItem w ''refresh_token'' = Some rt" and "rt \<noteq> []"
      and "settle (refresh_config rt) (srv (trace w) (refresh_config rt)) = Inr r2"
      and "destructure r2 = Inr (av, nv)"
  shows "on_rejected srv w (AxiosError c resp) =
           api srv (store_pair av nv (sent (refresh_config rt) w)) (resend_config c av)"
  using assms by (simp add: on_rejected_refreshed store_pair_def resend_config_def)
text \<open>The four ways a first 401 on an unmarked descriptor ends.\<close>

lemma api_first_401:
  assumes "srv (trace w) (outgoing w c) = Reply r" and "status r = 401"
  shows "api srv w c =
           on_rejected srv (sent (outgoing w c) w) (AxiosError (outgoing w c) (Some r))"
  using assms by (simp add: api_unfold settle_def)

lemma api_no_token:
  assumes "\<not> retry c"
      and "srv (trace w) (outgoing w c) = Reply r" and "status r = 401"
      and "\<not> truthy (getItem w ''refresh_token'')"
  shows "api srv w c =
           (Inl (AxiosError ((outgoing w c)\<lparr>retry := True\<rparr>) (Some r)),
            clear_and_redirect (sent (outgoing w c) w))"
proof -
  have "\<not> truthy (getItem (sent (outgoing w c) w) ''refresh_token'')"
    using assms(4) by (simp add: getItem_def)
  then show ?thesis
    using assms(1,2,3)
    by (simp add: api_first_401 on_rejected_no_token retry_outgoing)
qed

lemma api_refresh_failed:
  assumes "\<not> retry c"
      and "srv (trace w) (outgoing w c) = Reply r" and "status r = 401"
      and "getItem w ''refresh_token'' = Some rt" and "rt \<noteq> []"
      and "settle (refresh_config rt) (srv (trace w @ [Sent (outgoing w c)]) (refresh_config rt))
             = Inl e"
  shows "api srv w c =
           (Inl e, clear_and_redirect (sent (refresh_config rt) (sent (outgoing w c) w)))"
proof -
  have "getItem (sent (outgoing w c) w) ''refresh_token'' = Some rt"
    using assms(4) by (simp add: getItem_def)
  then show ?thesis
    using assms(1,3,5,6)
    using assms(2) by (simp add: api_first_401 on_rejected_refresh_failed retry_outgoing)
qed

lemma api_refresh_malformed:
  assumes "\<not> retry c"
      and "srv (trace w) (outgoing w c) = Reply r" and "status r = 401"
      and "getItem w ''refresh_token'' = Some rt" and "rt \<noteq> []"
      and "settle (refresh_config rt) (srv (trace w @ [Sent (outgoing w c)]) (refresh_config rt))
             = Inr r2"
      and "destructure r2 = Inl e"
  shows "api srv w c =
           (Inl e, clear_and_redirect (sent (refresh_config rt) (sent (outgoing w c) w)))"
proof -
  have "getItem (sent (outgoing w c) w) ''refresh_token'' = Some rt"
    using assms(4) by (simp add: getItem_def)
  then show ?thesis
    using assms(1,3,5,6,7)
    using assms(2) by (simp add: api_first_401 on_rejected_refresh_malformed retry_outgoing)
qed

lemma api_refreshed:
  assumes "\<not> retry c"
      and "srv (trace w) (outgoing w c) = Reply r" and "status r = 401"
      and "getItem w ''refresh_token'' = Some rt" and "rt \<noteq> []"
      and "settle (refresh_config rt) (srv (trace w @ [Sent (outgoing w c)]) (refresh_config rt))
             = Inr r2"
      and "destructure r2 = Inr (av, nv)"
  shows "api srv w c =
           api srv (store_pair av nv (sent (refresh_config rt) (sent (outgoing w c) w)))
             (resend_config (outgoing w c) av)"
proof -
  have "getItem (sent (outgoing w c) w) ''refresh_token'' = Some rt"
    using assms(4) by (simp add: getItem_def)
  then show ?thesis
    using assms(1,3,5,6,7)
    using assms(2) by (simp add: api_first_401 on_rejected_refreshed_resend retry_outgoing)
qed

text \<open>
  The resend goes through \<open>api\<close> again; as its descriptor carries the marker, whatever
  the backend answers is the outcome, and the descriptor that goes on the wire is the
  one the response interceptor prepared.
\<close>

lemma api_resend:
  "api srv (store_pair av nv w') (resend_config (outgoing w c) av) =
     (settle (resend_config (outgoing w c) av)
        (srv (trace w') (resend_config (outgoing w c) av)),
      sent (resend_config (outgoing w c) av) (store_pair av nv w'))"
  using api_marked [of "resend_config (outgoing w c) av" srv "store_pair av nv w'"]
  by (simp add: outgoing_resend)

text \<open>Every call of \<open>api\<close> ends in one of five ways.\<close>

lemma api_outcomes:
  "(\<exists>res. api srv w c = (res, sent (outgoing w c) w))
   \<or> (\<exists>e. api srv w c = (Inl e, clear_and_redirect (sent (outgoing w c) w)))
   \<or> (\<exists>e rt. api srv w c =
         (Inl e, clear_and_redirect (sent (refresh_config rt) (sent (outgoing w c) w))))
   \<or> (\<exists>res rt av nv. api srv w c =
         (res, sent (resend_config (outgoing w c) av)
                 (store_pair av nv (sent (refresh_config rt) (sent (outgoing w c) w)))))"
proof (cases "settle (outgoing w c) (srv (trace w) (outgoing w c))")
  case (Inr r)
  then show ?thesis by (simp add: api_unfold)
next
  case (Inl e)
  show ?thesis
  proof (cases "\<not> is_401 e \<or> retry c")
    case True
    have "on_rejected srv (sent (outgoing w c) w) e = (Inl e, sent (outgoing w c) w)"
    proof (cases e)
      case (AxiosError c' resp)
      with Inl have "c' = outgoing w c" by (auto dest: settle_error_config)
      with AxiosError True show ?thesis
        by (intro on_rejected_surface) (auto simp: retry_outgoing)
    next
      case TypeError
      then show ?thesis by (simp add: on_rejected_surface)
    qed
    with Inl show ?thesis by (simp add: api_unfold)
  next
    case False
    then have m: "\<not> retry c" and i: "is_401 e" by auto
    from Inl i obtain r where r: "srv (trace w) (outgoing w c) = Reply r" "status r = 401"
      by (auto simp: settle_def split: reply.splits if_splits)
    show ?thesis
    proof (cases "truthy (getItem w ''refresh_token'')")
      case False
      from m r False have "api srv w c =
           (Inl (AxiosError ((outgoing w c)\<lparr>retry := True\<rparr>) (Some r)),
            clear_and_redirect (sent (outgoing w c) w))"
        by (rule api_no_token)
      then show ?thesis by blast
    next
      case True
      then obtain rt where rt: "getItem w ''refresh_token'' = Some rt" "rt \<noteq> []"
        by (cases "getItem w ''refresh_token''") auto
      show ?thesis
      proof (cases "settle (refresh_config rt)
                      (srv (trace w @ [Sent (outgoing w c)]) (refresh_config rt))")
        case (Inl e2)
        from m r rt Inl have "api srv w c =
            (Inl e2, clear_and_redirect (sent (refresh_config rt) (sent (outgoing w c) w)))"
          by (rule api_refresh_failed)
        then show ?thesis by blast
      next
        case (Inr r2)
        show ?thesis
        proof (cases "destructure r2")
          case (Inl e2)
          from m r rt Inr Inl have "api srv w c =
              (Inl e2, clear_and_redirect (sent (refresh_config rt) (sent (outgoing w c) w)))"
            by (rule api_refresh_malformed)
          then show ?thesis by blast
        next
          case d: (Inr p)
          obtain av nv where p: "p = (av, nv)" by (cases p)
          from m r rt Inr d [unfolded p] have "api srv w c =
              api srv (store_pair av nv (sent (refresh_config rt) (sent (outgoing w c) w)))
                (resend_config (outgoing w c) av)"
            by (rule api_refreshed)
          then have "\<exists>res. api srv w c =
              (res, sent (resend_config (outgoing w c) av)
                      (store_pair av nv (sent (refresh_config rt) (sent (outgoing w c) w))))"
            by (simp add: api_resend)
          then show ?thesis by blast
        qed
      qed
    qed
  qed
qed

lemma api_frame:
  "user (snd (api srv w c)) = user w \<and> isLoading (snd (api srv w c)) = isLoading w"
  using api_outcomes [of srv w c] by auto
lemma refresh_calls_append [simp]:
  "refresh_calls (xs @ ys) = refresh_calls xs + refresh_calls ys"
  by (simp add: refresh_calls_def)

lemma refresh_calls_list [simp]:
  "refresh_calls [] = 0"
  "refresh_calls (ev # evs) = (if is_refresh_call ev then 1 else 0) + refresh_calls evs"
  by (simp_all add: refresh_calls_def)

lemma is_refresh_call_simps [simp]:
  "\<not> is_refresh_call (Sent (outgoing w c))"
  "\<not> is_refresh_call (Sent (resend_config (outgoing w c) av))"
  "is_refresh_call (Sent (refresh_config rt))"
  by (simp_all add: refresh_config_def)

lemmas example_defs =
  podcasts_request_def stored_world_def empty_world_def podcast_list_def new_pair_def
  unauthorized_def unavailable_def backend_open_def backend_down_def backend_rotating_def
  backend_rejecting_def backend_revoked_def rotated_world_def podcasts_resend_def
  preauthorized_request_def profile_def backend_session_def

lemmas client_defs =
  getItem_def setItem_def removeItem_def settle_def destructure_def refresh_config_def
  outgoing_def request_interceptor_def mergeConfig_def api_headers_def api_baseURL_def
  resend_config_def store_pair_def sent_def clear_and_redirect_def
text \<open>
  What one call of \<open>api\<close> adds to the trace: its own request first, then at most the
  refresh call and the resend; never a call of a state setter.
\<close>

lemma api_trace_shape:
  "\<exists>evs. trace (snd (api srv w c)) = trace w @ Sent (outgoing w c) # evs
         \<and> (\<forall>ev \<in> set evs. \<not> is_setter ev)"
  using api_outcomes [of srv w c] by auto

lemma logout_fields [simp]:
  "trace (logout w) = trace w @ [SetUser JNull]"
  "user (logout w) = JNull"
  "isLoading (logout w) = isLoading w"
  by (simp_all add: logout_def setUser_def removeItem_def)

lemma console_error_fields [simp]:
  "trace (console_error e w) = trace w @ [ConsoleError e]"
  "isLoading (console_error e w) = isLoading w"
  by (simp_all add: console_error_def)

lemma setUser_fields [simp]:
  "trace (setUser u w) = trace w @ [SetUser u]"
  "user (setUser u w) = u"
  "isLoading (setUser u w) = isLoading w"
  by (simp_all add: setUser_def)

lemma setIsLoading_fields [simp]:
  "trace (setIsLoading b w) = trace w @ [SetIsLoading b]"
  "user (setIsLoading b w) = user w"
  "isLoading (setIsLoading b w) = b"
  "localStorage (setIsLoading b w) = localStorage w"
  by (simp_all add: setIsLoading_def)

text \<open>
  \<open>refreshUser\<close> fetches the profile and then publishes a user exactly once, as its last
  act: the profile, or no user after a failure. It does not touch the loading flag.
\<close>

lemma refreshUser_shape:
  "\<exists>evs u. trace (refreshUser srv w) =
             trace w @ Sent (outgoing w (get_config ''/users/me'')) # evs @ [SetUser u]
           \<and> (\<forall>ev \<in> set evs. \<not> is_setter ev)
           \<and> user (refreshUser srv w) = u
           \<and> isLoading (refreshUser srv w) = isLoading w"
proof -
  let ?p = "api srv w (get_config ''/users/me'')"
  obtain evs where evs:
    "trace (snd ?p) = trace w @ Sent (outgoing w (get_config ''/users/me'')) # evs"
    "\<forall>ev \<in> set evs. \<not> is_setter ev"
    using api_trace_shape [of srv w "get_config ''/users/me''"] by blast
  have fl: "isLoading (snd ?p) = isLoading w"
    using api_frame [of srv w "get_config ''/users/me''"] by simp
  obtain res w1 where p: "?p = (res, w1)" by (cases ?p)
  with evs fl have w1: "trace w1 = trace w @ Sent (outgoing w (get_config ''/users/me'')) # evs"
    "isLoading w1 = isLoading w" by simp_all
  show ?thesis
  proof (cases res)
    case (Inl e)
    with p have "refreshUser srv w = logout (console_error e w1)"
      by (simp add: refreshUser_def api_get_def)
    with w1 evs(2) show ?thesis
      by (intro exI [of _ "evs @ [ConsoleError e]"] exI [of _ JNull]) simp
  next
    case (Inr r)
    show ?thesis
    proof (cases "get_prop (data r) ''data''")
      case e: (Inl e)
      with p Inr have "refreshUser srv w = logout (console_error e w1)"
        by (simp add: refreshUser_def api_get_def)
      with w1 evs(2) show ?thesis
        by (intro exI [of _ "evs @ [ConsoleError e]"] exI [of _ JNull]) simp
    next
      case u: (Inr u)
      with p Inr have "refreshUser srv w = setUser u w1"
        by (simp add: refreshUser_def api_get_def)
      with w1 evs(2) show ?thesis
        by (intro exI [of _ evs] exI [of _ u]) simp
    qed
  qed
qed

section \<open>Pass-through of successful responses\<close>

text \<open>
  Claim C5. When the backend answers the request with a success (a 2xx status, so no 401
  is received), the caller receives exactly the response the backend produced. The client
  changes nothing on the way: the stored pair and the location are as before, and the
  only event is the one request.
\<close>

theorem pass_through:
  assumes "srv (trace w) (outgoing w c) = Reply r"
      and "200 \<le> status r" and "status r < 300"
  shows "api srv w c = (Inr r, sent (outgoing w c) w)
         \<and> localStorage (snd (api srv w c)) = localStorage w
         \<and> href (snd (api srv w c)) = href w"
proof -
  from assms have "settle (outgoing w c) (srv (trace w) (outgoing w c)) = Inr r"
    by (simp add: settle_def)
  then have "api srv w c = (Inr r, sent (outgoing w c) w)"
    by (simp add: api_unfold)
  then show ?thesis by simp
qed

theorem pass_through_witness:
  "backend_open (trace stored_world) (outgoing stored_world podcasts_request) = Reply podcast_list
   \<and> status podcast_list = 200
   \<and> fst (api backend_open stored_world podcasts_request) = Inr podcast_list
   \<and> localStorage (snd (api backend_open stored_world podcasts_request)) ''access_token''
       = Some ''a1''"
  using pass_through [of backend_open stored_world podcasts_request podcast_list]
  by (simp add: backend_open_def podcast_list_def stored_world_def)

section \<open>Failures that are not intercepted\<close>

text \<open>
  Claim C7. When the request fails with anything that is not a 401 (another status, or no
  reply at all), or fails with a 401 while its descriptor already carries the retry marker,
  the caller receives the error as axios built it. Nothing is retried and no refresh call
  is made (the one request is the only event), and the stored pair and the location are
  as before.
\<close>

theorem other_failures_propagate:
  assumes "settle (outgoing w c) (srv (trace w) (outgoing w c)) = Inl e"
      and "\<not> is_401 e \<or> retry c"
  shows "api srv w c = (Inl e, sent (outgoing w c) w)
         \<and> trace (snd (api srv w c)) = trace w @ [Sent (outgoing w c)]
         \<and> localStorage (snd (api srv w c)) = localStorage w
         \<and> href (snd (api srv w c)) = href w"
proof -
  have "on_rejected srv (sent (outgoing w c) w) e = (Inl e, sent (outgoing w c) w)"
  proof (cases e)
    case (AxiosError c' resp)
    with assms(1) have "c' = outgoing w c"
      by (auto dest: settle_error_config)
    with AxiosError assms(2) show ?thesis
      by (intro on_rejected_surface) (auto simp: retry_outgoing)
  next
    case TypeError
    then show ?thesis by (simp add: on_rejected_surface)
  qed
  with assms(1) have "api srv w c = (Inl e, sent (outgoing w c) w)"
    by (simp add: api_unfold)
  then show ?thesis by simp
qed

theorem other_failures_propagate_witness:
  "settle (outgoing stored_world podcasts_request)
      (backend_down (trace stored_world) (outgoing stored_world podcasts_request))
     = Inl (AxiosError (outgoing stored_world podcasts_request) (Some unavailable))
   \<and> \<not> is_401 (AxiosError (outgoing stored_world podcasts_request) (Some unavailable))
   \<and> fst (api backend_down stored_world podcasts_request)
       = Inl (AxiosError (outgoing stored_world podcasts_request) (Some unavailable))
   \<and> localStorage (snd (api backend_down stored_world podcasts_request)) ''access_token''
       = Some ''a1''
   \<and> localStorage (snd (api backend_down stored_world podcasts_request)) ''refresh_token''
       = Some ''r1''
   \<and> href (snd (api backend_down stored_world podcasts_request)) = ''/dashboard''"
  using other_failures_propagate [of stored_world podcasts_request backend_down
      "AxiosError (outgoing stored_world podcasts_request) (Some unavailable)"]
  by (simp add: settle_def backend_down_def unavailable_def stored_world_def)

section \<open>A 401 with no refresh credential\<close>

text \<open>
  Claim C3. A request without the retry marker is answered with a 401 while storage holds
  no refresh credential (\<open>getItem\<close> gives \<open>null\<close> or the empty string). Then both storage
  keys are cleared, the location is set to the unauthenticated entry point, and the
  caller receives the error of the original request: the same 401 response on the same
  descriptor, which by then carries the marker set at line 32. The request itself is the
  only event, so no refresh call is issued.
\<close>

theorem no_refresh_token_logout:
  assumes "\<not> retry c"
      and "srv (trace w) (outgoing w c) = Reply r" and "status r = 401"
      and "\<not> truthy (getItem w ''refresh_token'')"
  shows "fst (api srv w c) = Inl (AxiosError ((outgoing w c)\<lparr>retry := True\<rparr>) (Some r))
         \<and> localStorage (snd (api srv w c)) ''access_token'' = None
         \<and> localStorage (snd (api srv w c)) ''refresh_token'' = None
         \<and> href (snd (api srv w c)) = ''/auth''
         \<and> trace (snd (api srv w c)) = trace w @ [Sent (outgoing w c)]
         \<and> refresh_calls (trace (snd (api srv w c))) = refresh_calls (trace w)"
proof -
  from assms have "api srv w c =
      (Inl (AxiosError ((outgoing w c)\<lparr>retry := True\<rparr>) (Some r)),
       clear_and_redirect (sent (outgoing w c) w))"
    by (rule api_no_token)
  then show ?thesis by (simp add: refresh_calls_def)
qed

theorem no_refresh_token_logout_witness:
  "\<not> retry podcasts_request
   \<and> backend_revoked (trace empty_world) (outgoing empty_world podcasts_request) = Reply unauthorized
   \<and> status unauthorized = 401
   \<and> \<not> truthy (getItem empty_world ''refresh_token'')
   \<and> fst (api backend_revoked empty_world podcasts_request)
       = Inl (AxiosError ((outgoing empty_world podcasts_request)\<lparr>retry := True\<rparr>)
              (Some unauthorized))
   \<and> href (snd (api backend_revoked empty_world podcasts_request)) = ''/auth''
   \<and> trace (snd (api backend_revoked empty_world podcasts_request))
       = [Sent (outgoing empty_world podcasts_request)]"
  using no_refresh_token_logout [of podcasts_request backend_revoked empty_world unauthorized]
  by (simp add: podcasts_request_def backend_revoked_def unauthorized_def empty_world_def
      getItem_def)

section \<open>A refresh call that fails\<close>

text \<open>
  Claim C4. A request without the retry marker is answered with a 401, storage holds a
  refresh credential, and the dedicated refresh call is rejected (a status outside 2xx,
  or no reply). Then both storage keys are cleared, the location is set to the
  unauthenticated entry point, and the caller receives the error of the refresh call,
  which is not the error of the original request. The original request is not resent.
\<close>

theorem refresh_failure_logout:
  assumes "\<not> retry c"
      and "srv (trace w) (outgoing w c) = Reply r" and "status r = 401"
      and "getItem w ''refresh_token'' = Some rt" and "rt \<noteq> []"
      and "settle (refresh_config rt) (srv (trace w @ [Sent (outgoing w c)]) (refresh_config rt))
             = Inl e"
  shows "fst (api srv w c) = Inl e
         \<and> e \<noteq> AxiosError (outgoing w c) (Some r)
         \<and> e \<noteq> AxiosError ((outgoing w c)\<lparr>retry := True\<rparr>) (Some r)
         \<and> localStorage (snd (api srv w c)) ''access_token'' = None
         \<and> localStorage (snd (api srv w c)) ''refresh_token'' = None
         \<and> href (snd (api srv w c)) = ''/auth''
         \<and> trace (snd (api srv w c)) = trace w @ [Sent (outgoing w c), Sent (refresh_config rt)]"
proof -
  from assms have "api srv w c =
      (Inl e, clear_and_redirect (sent (refresh_config rt) (sent (outgoing w c) w)))"
    by (rule api_refresh_failed)
  moreover from assms(6) obtain resp where "e = AxiosError (refresh_config rt) resp"
    by (auto simp: settle_def split: reply.splits if_splits)
  moreover have "refresh_config rt \<noteq> outgoing w c"
    and "refresh_config rt \<noteq> (outgoing w c)\<lparr>retry := True\<rparr>"
    using baseURL_outgoing [of w c] baseURL_refresh_config [of rt]
    by (auto simp del: baseURL_outgoing baseURL_refresh_config)
  ultimately show ?thesis by simp
qed

theorem refresh_failure_logout_witness:
  "\<not> retry podcasts_request
   \<and> backend_revoked (trace stored_world) (outgoing stored_world podcasts_request)
       = Reply unauthorized
   \<and> getItem stored_world ''refresh_token'' = Some ''r1''
   \<and> settle (refresh_config ''r1'')
        (backend_revoked (trace stored_world @ [Sent (outgoing stored_world podcasts_request)])
           (refresh_config ''r1''))
       = Inl (AxiosError (refresh_config ''r1'') (Some unauthorized))
   \<and> fst (api backend_revoked stored_world podcasts_request)
       = Inl (AxiosError (refresh_config ''r1'') (Some unauthorized))
   \<and> localStorage (snd (api backend_revoked stored_world podcasts_request)) ''access_token''
       = None
   \<and> localStorage (snd (api backend_revoked stored_world podcasts_request)) ''refresh_token''
       = None
   \<and> href (snd (api backend_revoked stored_world podcasts_request)) = ''/auth''"
  using refresh_failure_logout [of podcasts_request backend_revoked stored_world unauthorized
      "''r1''" "AxiosError (refresh_config ''r1'') (Some unauthorized)"]
  by (simp add: podcasts_request_def backend_revoked_def unauthorized_def stored_world_def
      getItem_def settle_def)

section \<open>A 401 followed by a successful refresh\<close>

text \<open>
  Claim C1. A request without the retry marker is answered with a 401, storage holds a
  refresh credential, and the dedicated refresh call succeeds: its reply has a 2xx status
  and the envelope of the refresh endpoint, an object whose \<open>data\<close> member is an object
  with the string members \<open>access_token\<close> \<open>a\<close> and \<open>refresh_token\<close> \<open>n\<close>. Then both
  storage keys are set to \<open>a\<close> and \<open>n\<close>, the values found in that reply; the original
  request, with the marker set and its \<open>Authorization\<close> header replaced by \<open>Bearer a\<close>,
  is sent again through \<open>api\<close> in that world, and that descriptor is the one that goes on
  the wire; the caller receives the outcome of that resend, success or failure; and both
  storage keys still hold \<open>a\<close> and \<open>n\<close> afterwards. (A 2xx reply without such an envelope
  is no success of the refresh step: line 48 raises and the \<open>catch\<close> branch logs out, as
  \<open>api_refresh_malformed\<close> states.)
\<close>

theorem refresh_and_resend:
  assumes "\<not> retry c"
      and "srv (trace w) (outgoing w c) = Reply r" and "status r = 401"
      and "getItem w ''refresh_token'' = Some rt" and "rt \<noteq> []"
      and "srv (trace w @ [Sent (outgoing w c)]) (refresh_config rt) = Reply r2"
      and "200 \<le> status r2" and "status r2 < 300"
      and "data r2 = JObj envelope"
      and "map_of envelope ''data'' = Some (JObj pair)"
      and "map_of pair ''access_token'' = Some (JStr a)"
      and "map_of pair ''refresh_token'' = Some (JStr n)"
  shows "api srv
           (setItem ''refresh_token'' n
              (setItem ''access_token'' a
                 (sent (refresh_config rt) (sent (outgoing w c) w))))
           ((outgoing w c)\<lparr>retry := True,
              headers := (headers (outgoing w c))(''Authorization'' \<mapsto> ''Bearer '' @ a)\<rparr>)
           = api srv w c
         \<and> getItem
             (setItem ''refresh_token'' n
                (setItem ''access_token'' a
                   (sent (refresh_config rt) (sent (outgoing w c) w))))
             ''access_token'' = Some a
         \<and> fst (api srv w c) =
             settle
               ((outgoing w c)\<lparr>retry := True,
                  headers := (headers (outgoing w c))(''Authorization'' \<mapsto> ''Bearer '' @ a)\<rparr>)
               (srv (trace w @ [Sent (outgoing w c), Sent (refresh_config rt)])
                  ((outgoing w c)\<lparr>retry := True,
                     headers := (headers (outgoing w c))
                       (''Authorization'' \<mapsto> ''Bearer '' @ a)\<rparr>))
         \<and> trace (snd (api srv w c)) =
             trace w @ [Sent (outgoing w c), Sent (refresh_config rt),
                        Sent ((outgoing w c)\<lparr>retry := True,
                                headers := (headers (outgoing w c))
                                  (''Authorization'' \<mapsto> ''Bearer '' @ a)\<rparr>)]
         \<and> localStorage (snd (api srv w c)) ''access_token'' = Some a
         \<and> localStorage (snd (api srv w c)) ''refresh_token'' = Some n"
proof -
  from assms(6-8)
  have ok: "settle (refresh_config rt) (srv (trace w @ [Sent (outgoing w c)]) (refresh_config rt))
          = Inr r2"
    by (simp add: settle_def)
  from assms(9-12) have pinned: "destructure r2 = Inr (JStr a, JStr n)"
    by (simp add: destructure_def)
  from assms(1-5) ok pinned
  have resend: "api srv w c =
      api srv (store_pair (JStr a) (JStr n) (sent (refresh_config rt) (sent (outgoing w c) w)))
        (resend_config (outgoing w c) (JStr a))"
    by (rule api_refreshed)
  have world: "store_pair (JStr a) (JStr n) (sent (refresh_config rt) (sent (outgoing w c) w))
      = setItem ''refresh_token'' n
          (setItem ''access_token'' a (sent (refresh_config rt) (sent (outgoing w c) w)))"
    by (simp add: store_pair_def)
  have descriptor: "resend_config (outgoing w c) (JStr a)
      = (outgoing w c)\<lparr>retry := True,
          headers := (headers (outgoing w c))(''Authorization'' \<mapsto> ''Bearer '' @ a)\<rparr>"
    by (simp add: resend_config_def)
  have whole: "api srv w c =
      (settle (resend_config (outgoing w c) (JStr a))
         (srv (trace w @ [Sent (outgoing w c), Sent (refresh_config rt)])
            (resend_config (outgoing w c) (JStr a))),
       sent (resend_config (outgoing w c) (JStr a))
         (store_pair (JStr a) (JStr n) (sent (refresh_config rt) (sent (outgoing w c) w))))"
    by (simp add: resend api_resend)
  have "api srv (store_pair (JStr a) (JStr n) (sent (refresh_config rt) (sent (outgoing w c) w)))
      (resend_config (outgoing w c) (JStr a)) = api srv w c"
    by (simp add: resend)
  moreover have "getItem
      (store_pair (JStr a) (JStr n) (sent (refresh_config rt) (sent (outgoing w c) w)))
      ''access_token'' = Some a"
    using store_pair_fields(3) [of "JStr a" "JStr n"] by simp
  moreover from whole have "fst (api srv w c) =
      settle (resend_config (outgoing w c) (JStr a))
        (srv (trace w @ [Sent (outgoing w c), Sent (refresh_config rt)])
           (resend_config (outgoing w c) (JStr a)))"
    by simp
  moreover from whole have "trace (snd (api srv w c)) =
      trace w @ [Sent (outgoing w c), Sent (refresh_config rt),
                 Sent (resend_config (outgoing w c) (JStr a))]"
    by simp
  moreover from whole have "localStorage (snd (api srv w c)) ''access_token'' = Some a"
    using store_pair_fields(1) [of "JStr a" "JStr n"] by simp
  moreover from whole have "localStorage (snd (api srv w c)) ''refresh_token'' = Some n"
    using store_pair_fields(2) [of "JStr a" "JStr n"] by simp
  ultimately show ?thesis
    unfolding world descriptor by blast
qed

theorem refresh_and_resend_witness:
  "\<not> retry podcasts_request
   \<and> backend_rotating (trace stored_world) (outgoing stored_world podcasts_request)
       = Reply unauthorized
   \<and> status unauthorized = 401
   \<and> getItem stored_world ''refresh_token'' = Some ''r1''
   \<and> backend_rotating (trace stored_world @ [Sent (outgoing stored_world podcasts_request)])
        (refresh_config ''r1'') = Reply new_pair
   \<and> status new_pair = 200
   \<and> data new_pair =
       JObj [(''message'', JStr ''ok''),
             (''data'', JObj [(''access_token'', JStr ''a2''), (''refresh_token'', JStr ''r2''),
                              (''token_type'', JStr ''bearer'')])]
   \<and> fst (api backend_rotating stored_world podcasts_request) = Inr podcast_list
   \<and> localStorage (snd (api backend_rotating stored_world podcasts_request)) ''access_token''
       = Some ''a2''
   \<and> localStorage (snd (api backend_rotating stored_world podcasts_request)) ''refresh_token''
       = Some ''r2''"
  using refresh_and_resend [of podcasts_request backend_rotating stored_world unauthorized
      "''r1''" new_pair
      "[(''message'', JStr ''ok''),
        (''data'', JObj [(''access_token'', JStr ''a2''), (''refresh_token'', JStr ''r2''),
                         (''token_type'', JStr ''bearer'')])]"
      "[(''access_token'', JStr ''a2''), (''refresh_token'', JStr ''r2''),
        (''token_type'', JStr ''bearer'')]"
      "''a2''" "''r2''"]
  by (simp add: podcasts_request_def backend_rotating_def unauthorized_def stored_world_def
      new_pair_def podcast_list_def getItem_def setItem_def settle_def refresh_config_def
      outgoing_def request_interceptor_def mergeConfig_def api_headers_def api_baseURL_def
      sent_def)

section \<open>At most one refresh per request\<close>

text \<open>
  Claim C2. Whatever the backend answers, one call of \<open>api\<close> issues at most one refresh
  call. When the first answer is a 401, the refresh succeeds and the resend is answered
  with a 401 again, the descriptor that was resent carries the retry marker (it was set
  before the refresh call went out), the caller receives that second 401 as a failure,
  and the refresh call made before the resend is the only one.
\<close>

theorem single_refresh_attempt:
  "refresh_calls (trace (snd (api srv w c))) \<le> refresh_calls (trace w) + 1
   \<and> (\<not> retry c
        \<and> srv (trace w) (outgoing w c) = Reply r \<and> status r = 401
        \<and> getItem w ''refresh_token'' = Some rt \<and> rt \<noteq> []
        \<and> srv (trace w @ [Sent (outgoing w c)]) (refresh_config rt) = Reply r2
        \<and> 200 \<le> status r2 \<and> status r2 < 300
        \<and> destructure r2 = Inr (av, nv)
        \<and> srv (trace w @ [Sent (outgoing w c), Sent (refresh_config rt)])
             (resend_config (outgoing w c) av) = Reply r3
        \<and> status r3 = 401
      \<longrightarrow> retry (resend_config (outgoing w c) av)
          \<and> fst (api srv w c) = Inl (AxiosError (resend_config (outgoing w c) av) (Some r3))
          \<and> trace (snd (api srv w c)) =
              trace w @ [Sent (outgoing w c), Sent (refresh_config rt),
                         Sent (resend_config (outgoing w c) av)]
          \<and> refresh_calls (trace (snd (api srv w c))) = refresh_calls (trace w) + 1)"
proof (intro conjI impI)
  show "refresh_calls (trace (snd (api srv w c))) \<le> refresh_calls (trace w) + 1"
    using api_outcomes [of srv w c] by auto
next
  assume h: "\<not> retry c
        \<and> srv (trace w) (outgoing w c) = Reply r \<and> status r = 401
        \<and> getItem w ''refresh_token'' = Some rt \<and> rt \<noteq> []
        \<and> srv (trace w @ [Sent (outgoing w c)]) (refresh_config rt) = Reply r2
        \<and> 200 \<le> status r2 \<and> status r2 < 300
        \<and> destructure r2 = Inr (av, nv)
        \<and> srv (trace w @ [Sent (outgoing w c), Sent (refresh_config rt)])
             (resend_config (outgoing w c) av) = Reply r3
        \<and> status r3 = 401"
  then have ok: "settle (refresh_config rt)
      (srv (trace w @ [Sent (outgoing w c)]) (refresh_config rt)) = Inr r2"
    by (simp add: settle_def)
  from h have "\<not> retry c" "srv (trace w) (outgoing w c) = Reply r" "status r = 401"
    "getItem w ''refresh_token'' = Some rt" "rt \<noteq> []"
    by simp_all
  from this ok have "api srv w c =
      api srv (store_pair av nv (sent (refresh_config rt) (sent (outgoing w c) w)))
        (resend_config (outgoing w c) av)"
  proof (rule api_refreshed)
    from h show "destructure r2 = Inr (av, nv)" by simp
  qed
  with h have whole: "api srv w c =
      (Inl (AxiosError (resend_config (outgoing w c) av) (Some r3)),
       sent (resend_config (outgoing w c) av)
         (store_pair av nv (sent (refresh_config rt) (sent (outgoing w c) w))))"
    by (simp add: api_resend settle_def)
  show "retry (resend_config (outgoing w c) av)" by simp
  from whole show "fst (api srv w c) =
      Inl (AxiosError (resend_config (outgoing w c) av) (Some r3))"
    by simp
  from whole show "trace (snd (api srv w c)) =
      trace w @ [Sent (outgoing w c), Sent (refresh_config rt),
                 Sent (resend_config (outgoing w c) av)]"
    by simp
  from whole show "refresh_calls (trace (snd (api srv w c))) = refresh_calls (trace w) + 1"
    by simp
qed

theorem single_refresh_attempt_witness:
  "\<not> retry podcasts_request
   \<and> backend_rejecting (trace stored_world) (outgoing stored_world podcasts_request)
       = Reply unauthorized
   \<and> status unauthorized = 401
   \<and> getItem stored_world ''refresh_token'' = Some ''r1''
   \<and> backend_rejecting (trace stored_world @ [Sent (outgoing stored_world podcasts_request)])
        (refresh_config ''r1'') = Reply new_pair
   \<and> status new_pair = 200
   \<and> destructure new_pair = Inr (JStr ''a2'', JStr ''r2'')
   \<and> backend_rejecting
        (trace stored_world @ [Sent (outgoing stored_world podcasts_request),
                               Sent (refresh_config ''r1'')])
        podcasts_resend = Reply unauthorized
   \<and> retry podcasts_resend
   \<and> fst (api backend_rejecting stored_world podcasts_request)
       = Inl (AxiosError podcasts_resend (Some unauthorized))
   \<and> refresh_calls (trace (snd (api backend_rejecting stored_world podcasts_request))) = 1"
  using single_refresh_attempt [of backend_rejecting stored_world podcasts_request unauthorized
      "''r1''" new_pair "JStr ''a2''" "JStr ''r2''" unauthorized]
  by (simp add: example_defs client_defs refresh_calls_def)

section \<open>A 401 on a request that already carries the marker\<close>

text \<open>
  Claim C6 says that a 401 on a request that already carries the retry marker is surfaced
  to the caller and that, as a side effect, both storage keys are cleared and the
  application is redirected to the unauthenticated entry point. The failure is surfaced,
  but the interceptor does nothing else on that path: the guard at line 31 skips the
  whole refresh block, logout included, and line 66 rejects. In the scenario below the
  resend of the podcast request is answered with a second 401; the caller receives it,
  storage still holds the pair the refresh call has just returned, and the location is
  where it was.
\<close>

theorem marked_401_logout_counterexample:
  "api backend_rejecting stored_world podcasts_request
     = api backend_rejecting rotated_world podcasts_resend
   \<and> retry podcasts_resend
   \<and> backend_rejecting (trace rotated_world) (outgoing rotated_world podcasts_resend)
       = Reply unauthorized
   \<and> status unauthorized = 401
   \<and> fst (api backend_rejecting rotated_world podcasts_resend)
       = Inl (AxiosError podcasts_resend (Some unauthorized))
   \<and> localStorage (snd (api backend_rejecting rotated_world podcasts_resend)) ''access_token''
       = Some ''a2''
   \<and> localStorage (snd (api backend_rejecting rotated_world podcasts_resend)) ''refresh_token''
       = Some ''r2''
   \<and> href (snd (api backend_rejecting rotated_world podcasts_resend)) = ''/dashboard''
   \<and> href (snd (api backend_rejecting rotated_world podcasts_resend)) \<noteq> ''/auth''"
proof -
  have first: "api backend_rejecting stored_world podcasts_request
      = api backend_rejecting rotated_world podcasts_resend"
    unfolding rotated_world_def podcasts_resend_def
  proof (rule api_refreshed)
    show "\<not> retry podcasts_request"
      by (simp add: podcasts_request_def)
    show "backend_rejecting (trace stored_world) (outgoing stored_world podcasts_request)
        = Reply unauthorized"
      by (simp add: backend_rejecting_def outgoing_def request_interceptor_def mergeConfig_def
          podcasts_request_def split: option.splits)
    show "status unauthorized = 401"
      by (simp add: unauthorized_def)
    show "getItem stored_world ''refresh_token'' = Some ''r1''"
      by (simp add: getItem_def stored_world_def)
    show "''r1'' \<noteq> []" by simp
    show "settle (refresh_config ''r1'')
        (backend_rejecting (trace stored_world @ [Sent (outgoing stored_world podcasts_request)])
           (refresh_config ''r1'')) = Inr new_pair"
      by (simp add: settle_def backend_rejecting_def new_pair_def)
    show "destructure new_pair = Inr (JStr ''a2'', JStr ''r2'')"
      by (simp add: destructure_def new_pair_def)
  qed
  have marked: "retry podcasts_resend"
    by (simp add: podcasts_resend_def)
  have wire: "outgoing rotated_world podcasts_resend = podcasts_resend"
    unfolding rotated_world_def podcasts_resend_def by (rule outgoing_resend)
  have reply: "backend_rejecting (trace rotated_world) podcasts_resend = Reply unauthorized"
    by (simp add: backend_rejecting_def podcasts_resend_def podcasts_request_def outgoing_def
        request_interceptor_def mergeConfig_def split: option.splits)
  have second: "api backend_rejecting rotated_world podcasts_resend
      = (Inl (AxiosError podcasts_resend (Some unauthorized)), sent podcasts_resend rotated_world)"
    using api_marked [OF marked, of backend_rejecting rotated_world]
    by (simp add: wire reply settle_def unauthorized_def)
  have stored: "localStorage rotated_world ''access_token'' = Some ''a2''"
    "localStorage rotated_world ''refresh_token'' = Some ''r2''"
    "href rotated_world = ''/dashboard''"
    by (simp_all add: rotated_world_def stored_world_def)
  from first marked wire reply second stored show ?thesis
    by (simp add: unauthorized_def)
qed

text \<open>
  Claim C6 as amended. A 401 on a request that already carries the retry marker is
  surfaced to the caller as it is, and the client leaves storage and the location as
  they were: it neither clears the two keys nor redirects.
\<close>

theorem marked_401_surfaced:
  assumes "retry c"
      and "srv (trace w) (outgoing w c) = Reply r" and "status r = 401"
  shows "fst (api srv w c) = Inl (AxiosError (outgoing w c) (Some r))
         \<and> localStorage (snd (api srv w c)) = localStorage w
         \<and> href (snd (api srv w c)) = href w"
proof -
  from assms(2,3) have "settle (outgoing w c) (srv (trace w) (outgoing w c))
      = Inl (AxiosError (outgoing w c) (Some r))"
    by (simp add: settle_def)
  with api_marked [OF assms(1), of srv w] show ?thesis by simp
qed

theorem marked_401_surfaced_witness:
  "retry podcasts_resend
   \<and> backend_revoked (trace rotated_world) (outgoing rotated_world podcasts_resend)
       = Reply unauthorized
   \<and> status unauthorized = 401
   \<and> fst (api backend_revoked rotated_world podcasts_resend)
       = Inl (AxiosError (outgoing rotated_world podcasts_resend) (Some unauthorized))
   \<and> localStorage (snd (api backend_revoked rotated_world podcasts_resend)) ''access_token''
       = Some ''a2''
   \<and> href (snd (api backend_revoked rotated_world podcasts_resend)) = ''/dashboard''"
  using marked_401_surfaced [of podcasts_resend backend_revoked rotated_world unauthorized]
  by (simp add: podcasts_resend_def backend_revoked_def unauthorized_def rotated_world_def
      stored_world_def)

section \<open>The bearer header\<close>

text \<open>
  Claim C8 says that on every send the access credential is read from storage at send
  time, that a non-empty one is attached as \<open>Authorization: Bearer\<close>, and that otherwise
  the request is sent without an \<open>Authorization\<close> header and otherwise unmodified. The
  last part fails when the descriptor already carries such a header: with no access
  credential in storage the interceptor returns the descriptor as it is, header included.
\<close>

theorem bearer_absent_counterexample:
  "\<not> truthy (getItem empty_world ''access_token'')
   \<and> trace (snd (api backend_open empty_world preauthorized_request))
       = [Sent (outgoing empty_world preauthorized_request)]
   \<and> headers (outgoing empty_world preauthorized_request) ''Authorization''
       = Some ''Basic dXNlcg==''
   \<and> headers (outgoing empty_world preauthorized_request) ''Authorization'' \<noteq> None"
proof -
  have "backend_open (trace empty_world) (outgoing empty_world preauthorized_request)
      = Reply podcast_list"
    by (simp add: backend_open_def)
  then have "api backend_open empty_world preauthorized_request
      = (Inr podcast_list, sent (outgoing empty_world preauthorized_request) empty_world)"
    by (simp add: api_unfold settle_def podcast_list_def)
  moreover have "trace empty_world = []"
    by (simp add: empty_world_def)
  moreover have "getItem empty_world ''access_token'' = None"
    by (simp add: getItem_def empty_world_def)
  moreover from this
  have "headers (outgoing empty_world preauthorized_request) ''Authorization''
      = Some ''Basic dXNlcg==''"
    by (simp add: outgoing_def request_interceptor_def mergeConfig_def api_headers_def
        preauthorized_request_def podcasts_request_def)
  ultimately show ?thesis by simp
qed

text \<open>
  Claim C8 as amended. On every send, the resend after a refresh included, the access
  credential is read from storage at the time of that send: the first thing a call of
  \<open>api\<close> does is hand to the network its descriptor as the request interceptor leaves it in
  the storage of that moment, and the resend is such a call, made once the new pair is
  stored, so it goes out with the new bearer. If the credential read is non-empty the
  interceptor sets the header \<open>Authorization: Bearer\<close> with it and changes nothing else;
  otherwise it returns the descriptor unmodified, so that no header is added and one the
  descriptor already carries is kept.
\<close>

theorem bearer_read_at_send_time:
  "(getItem w ''access_token'' = Some token \<and> token \<noteq> [] \<longrightarrow>
      request_interceptor w cfg =
        cfg\<lparr>headers := (headers cfg)(''Authorization'' \<mapsto> ''Bearer '' @ token)\<rparr>)
   \<and> (\<not> truthy (getItem w ''access_token'') \<longrightarrow> request_interceptor w cfg = cfg)
   \<and> (\<exists>evs. trace (snd (api srv w c)) =
          trace w @ Sent (request_interceptor w (mergeConfig c)) # evs)
   \<and> (\<not> retry c
        \<and> srv (trace w) (outgoing w c) = Reply r \<and> status r = 401
        \<and> getItem w ''refresh_token'' = Some rt \<and> rt \<noteq> []
        \<and> srv (trace w @ [Sent (outgoing w c)]) (refresh_config rt) = Reply r2
        \<and> 200 \<le> status r2 \<and> status r2 < 300
        \<and> destructure r2 = Inr (av, nv)
      \<longrightarrow> getItem (store_pair av nv (sent (refresh_config rt) (sent (outgoing w c) w)))
            ''access_token'' = Some (to_string av)
          \<and> trace (snd (api srv w c)) =
              trace w @ [Sent (outgoing w c), Sent (refresh_config rt),
                Sent (request_interceptor
                        (store_pair av nv (sent (refresh_config rt) (sent (outgoing w c) w)))
                        (mergeConfig (resend_config (outgoing w c) av)))]
          \<and> headers (request_interceptor
                        (store_pair av nv (sent (refresh_config rt) (sent (outgoing w c) w)))
                        (mergeConfig (resend_config (outgoing w c) av))) ''Authorization''
              = Some (''Bearer '' @ to_string av))"
proof (intro conjI impI)
  assume "getItem w ''access_token'' = Some token \<and> token \<noteq> []"
  then show "request_interceptor w cfg =
      cfg\<lparr>headers := (headers cfg)(''Authorization'' \<mapsto> ''Bearer '' @ token)\<rparr>"
    by (simp add: request_interceptor_def)
next
  assume "\<not> truthy (getItem w ''access_token'')"
  then show "request_interceptor w cfg = cfg"
    by (cases "getItem w ''access_token''") (simp_all add: request_interceptor_def)
next
  show "\<exists>evs. trace (snd (api srv w c)) =
      trace w @ Sent (request_interceptor w (mergeConfig c)) # evs"
    using api_outcomes [of srv w c] by (auto simp: outgoing_def)
next
  assume h: "\<not> retry c
        \<and> srv (trace w) (outgoing w c) = Reply r \<and> status r = 401
        \<and> getItem w ''refresh_token'' = Some rt \<and> rt \<noteq> []
        \<and> srv (trace w @ [Sent (outgoing w c)]) (refresh_config rt) = Reply r2
        \<and> 200 \<le> status r2 \<and> status r2 < 300
        \<and> destructure r2 = Inr (av, nv)"
  let ?w3 = "store_pair av nv (sent (refresh_config rt) (sent (outgoing w c) w))"
  let ?c3 = "resend_config (outgoing w c) av"
  have wire: "request_interceptor ?w3 (mergeConfig ?c3) = ?c3"
    using outgoing_resend [of av nv "sent (refresh_config rt) (sent (outgoing w c) w)" w c]
    by (simp add: outgoing_def [of ?w3 ?c3])
  from h have ok: "settle (refresh_config rt)
      (srv (trace w @ [Sent (outgoing w c)]) (refresh_config rt)) = Inr r2"
    by (simp add: settle_def)
  from h have "\<not> retry c" "srv (trace w) (outgoing w c) = Reply r" "status r = 401"
    "getItem w ''refresh_token'' = Some rt" "rt \<noteq> []"
    by simp_all
  from this ok have "api srv w c = api srv ?w3 ?c3"
  proof (rule api_refreshed)
    from h show "destructure r2 = Inr (av, nv)" by simp
  qed
  then have whole: "trace (snd (api srv w c)) =
      trace w @ [Sent (outgoing w c), Sent (refresh_config rt), Sent ?c3]"
    by (simp add: api_resend)
  show "getItem ?w3 ''access_token'' = Some (to_string av)" by simp
  from whole show "trace (snd (api srv w c)) =
      trace w @ [Sent (outgoing w c), Sent (refresh_config rt),
                 Sent (request_interceptor ?w3 (mergeConfig ?c3))]"
    by (simp only: wire)
  show "headers (request_interceptor ?w3 (mergeConfig ?c3)) ''Authorization''
      = Some (''Bearer '' @ to_string av)"
    by (simp only: wire resend_config_fields)
qed

theorem bearer_read_at_send_time_witness:
  "getItem stored_world ''access_token'' = Some ''a1''
   \<and> headers (request_interceptor stored_world (mergeConfig podcasts_request)) ''Authorization''
       = Some ''Bearer a1''
   \<and> \<not> truthy (getItem empty_world ''access_token'')
   \<and> request_interceptor empty_world (mergeConfig podcasts_request) = mergeConfig podcasts_request
   \<and> headers (request_interceptor empty_world (mergeConfig podcasts_request)) ''Authorization''
       = None
   \<and> \<not> retry podcasts_request
   \<and> backend_rotating (trace stored_world) (outgoing stored_world podcasts_request)
       = Reply unauthorized
   \<and> getItem stored_world ''refresh_token'' = Some ''r1''
   \<and> backend_rotating (trace stored_world @ [Sent (outgoing stored_world podcasts_request)])
        (refresh_config ''r1'') = Reply new_pair
   \<and> destructure new_pair = Inr (JStr ''a2'', JStr ''r2'')
   \<and> getItem rotated_world ''access_token'' = Some ''a2''
   \<and> trace (snd (api backend_rotating stored_world podcasts_request))
       = [Sent (outgoing stored_world podcasts_request), Sent (refresh_config ''r1''),
          Sent (request_interceptor rotated_world (mergeConfig podcasts_resend))]
   \<and> headers (request_interceptor rotated_world (mergeConfig podcasts_resend)) ''Authorization''
       = Some ''Bearer a2''"
  using bearer_read_at_send_time [of stored_world "''a1''" "mergeConfig podcasts_request"
      backend_rotating podcasts_request unauthorized "''r1''" new_pair "JStr ''a2''"
      "JStr ''r2''"]
    bearer_read_at_send_time [of empty_world "''a1''" "mergeConfig podcasts_request"
      backend_rotating podcasts_request unauthorized "''r1''" new_pair "JStr ''a2''"
      "JStr ''r2''"]
  by (simp add: example_defs client_defs)

section \<open>Start-up of the session store\<close>

text \<open>
  Claim C9. On start-up, if storage holds an access credential (\<open>getItem\<close> gives a
  non-empty string), \<open>refreshUser\<close> runs once and to its end before the loading flag is
  cleared: \<open>initAuth\<close> is \<open>refreshUser\<close> followed by \<open>setIsLoading(false)\<close>, the flag is
  untouched while \<open>refreshUser\<close> runs, and the events added are the fetch of the user,
  events that are not setter calls, the one \<open>setUser\<close> that ends \<open>refreshUser\<close>, and last
  the clearing of the flag. If storage holds no access credential, the clearing of the
  flag is the only event: no request goes out, no user is published, and storage is as it
  was. In both cases the flag is cleared at the end.
\<close>

theorem startup_validation:
  "(truthy (getItem w ''access_token'') \<longrightarrow>
      initAuth srv w = setIsLoading False (refreshUser srv w)
      \<and> isLoading (refreshUser srv w) = isLoading w
      \<and> (\<exists>evs u. trace (initAuth srv w) =
             trace w @ Sent (outgoing w (get_config ''/users/me'')) # evs
               @ [SetUser u, SetIsLoading False]
           \<and> (\<forall>ev \<in> set evs. \<not> is_setter ev)
           \<and> user (initAuth srv w) = u))
   \<and> (\<not> truthy (getItem w ''access_token'') \<longrightarrow>
      trace (initAuth srv w) = trace w @ [SetIsLoading False]
      \<and> user (initAuth srv w) = user w
      \<and> localStorage (initAuth srv w) = localStorage w)
   \<and> \<not> isLoading (initAuth srv w)"
proof (intro conjI impI)
  assume t: "truthy (getItem w ''access_token'')"
  then show eq: "initAuth srv w = setIsLoading False (refreshUser srv w)"
    by (simp add: initAuth_def)
  obtain evs u where sh:
    "trace (refreshUser srv w) =
       trace w @ Sent (outgoing w (get_config ''/users/me'')) # evs @ [SetUser u]"
    "\<forall>ev \<in> set evs. \<not> is_setter ev"
    "user (refreshUser srv w) = u"
    "isLoading (refreshUser srv w) = isLoading w"
    using refreshUser_shape [of srv w] by blast
  from sh(4) show "isLoading (refreshUser srv w) = isLoading w" .
  from eq sh(1-3)
  show "\<exists>evs u. trace (initAuth srv w) =
             trace w @ Sent (outgoing w (get_config ''/users/me'')) # evs
               @ [SetUser u, SetIsLoading False]
           \<and> (\<forall>ev \<in> set evs. \<not> is_setter ev)
           \<and> user (initAuth srv w) = u"
    by (intro exI [of _ evs] exI [of _ u]) simp
next
  assume f: "\<not> truthy (getItem w ''access_token'')"
  then have eq: "initAuth srv w = setIsLoading False w"
    by (simp add: initAuth_def)
  from eq show "trace (initAuth srv w) = trace w @ [SetIsLoading False]" by simp
  from eq show "user (initAuth srv w) = user w" by simp
  from eq show "localStorage (initAuth srv w) = localStorage w" by simp
next
  show "\<not> isLoading (initAuth srv w)"
    by (simp add: initAuth_def Let_def)
qed

theorem startup_validation_witness:
  "truthy (getItem stored_world ''access_token'')
   \<and> initAuth backend_session stored_world
       = setIsLoading False (refreshUser backend_session stored_world)
   \<and> trace (initAuth backend_session stored_world)
       = [Sent (outgoing stored_world (get_config ''/users/me'')),
          SetUser (JObj [(''id'', JStr ''u1''), (''email'', JStr ''u1@example.org'')]),
          SetIsLoading False]
   \<and> \<not> isLoading (initAuth backend_session stored_world)
   \<and> \<not> truthy (getItem empty_world ''access_token'')
   \<and> trace (initAuth backend_session empty_world) = [SetIsLoading False]
   \<and> user (initAuth backend_session empty_world) = JNull
   \<and> \<not> isLoading (initAuth backend_session empty_world)"
proof -
  have a: "truthy (getItem stored_world ''access_token'')"
    by (simp add: getItem_def stored_world_def)
  have b: "\<not> truthy (getItem empty_world ''access_token'')"
    by (simp add: getItem_def empty_world_def)
  have fetch: "api backend_session stored_world (get_config ''/users/me'')
      = (Inr profile, sent (outgoing stored_world (get_config ''/users/me'')) stored_world)"
    by (simp add: api_unfold settle_def backend_session_def profile_def outgoing_def
        request_interceptor_def mergeConfig_def get_config_def getItem_def stored_world_def)
  have tr: "trace (refreshUser backend_session stored_world)
      = [Sent (outgoing stored_world (get_config ''/users/me'')),
         SetUser (JObj [(''id'', JStr ''u1''), (''email'', JStr ''u1@example.org'')])]"
    by (simp add: refreshUser_def api_get_def fetch)
      (simp add: profile_def stored_world_def)
  from a b tr
    startup_validation [of stored_world backend_session]
    startup_validation [of empty_world backend_session]
  show ?thesis
    by (simp add: empty_world_def)
qed

section \<open>The refresh call goes through the plain client\<close>

text \<open>
  Claim C10. The dedicated refresh call is \<open>axios.post\<close> on the library's own instance,
  which has neither interceptor: its descriptor depends on the refresh credential only
  and has no \<open>Authorization\<close> header whatever storage holds, and its outcome comes back
  as it is, with storage untouched. Inside \<open>api\<close>, after a first 401 on an unmarked
  request with a refresh credential stored, the second event is that descriptor; and
  when the refresh call is rejected, by a 401 or otherwise, the caller receives its error
  and nothing more is sent, so that no further refresh starts from the refresh endpoint.
\<close>

theorem refresh_call_not_intercepted:
  "headers (refresh_config rt) ''Authorization'' = None
   \<and> axios_post srv w ''/api/v1/auth/refresh'' (JObj [(''refresh_token'', JStr rt)])
       = (settle (refresh_config rt) (srv (trace w) (refresh_config rt)),
          sent (refresh_config rt) w)
   \<and> localStorage
        (snd (axios_post srv w ''/api/v1/auth/refresh'' (JObj [(''refresh_token'', JStr rt)])))
       = localStorage w
   \<and> (\<not> retry c
        \<and> srv (trace w) (outgoing w c) = Reply r \<and> status r = 401
        \<and> getItem w ''refresh_token'' = Some rt \<and> rt \<noteq> []
      \<longrightarrow> (\<exists>evs. trace (snd (api srv w c)) =
                  trace w @ Sent (outgoing w c) # Sent (refresh_config rt) # evs)
          \<and> (\<forall>e. settle (refresh_config rt)
                     (srv (trace w @ [Sent (outgoing w c)]) (refresh_config rt)) = Inl e
                \<longrightarrow> fst (api srv w c) = Inl e
                    \<and> trace (snd (api srv w c)) =
                        trace w @ [Sent (outgoing w c), Sent (refresh_config rt)]
                    \<and> refresh_calls (trace (snd (api srv w c))) = refresh_calls (trace w) + 1))"
proof (intro conjI impI allI)
  show "headers (refresh_config rt) ''Authorization'' = None"
    by (simp add: refresh_config_def)
  show post: "axios_post srv w ''/api/v1/auth/refresh'' (JObj [(''refresh_token'', JStr rt)])
      = (settle (refresh_config rt) (srv (trace w) (refresh_config rt)),
         sent (refresh_config rt) w)"
    by (rule axios_post_refresh)
  then show "localStorage
      (snd (axios_post srv w ''/api/v1/auth/refresh'' (JObj [(''refresh_token'', JStr rt)])))
      = localStorage w"
    by simp
next
  assume h: "\<not> retry c
        \<and> srv (trace w) (outgoing w c) = Reply r \<and> status r = 401
        \<and> getItem w ''refresh_token'' = Some rt \<and> rt \<noteq> []"
  then have m: "\<not> retry c" and r: "srv (trace w) (outgoing w c) = Reply r" "status r = 401"
    and rt: "getItem w ''refresh_token'' = Some rt" "rt \<noteq> []"
    by simp_all
  show "\<exists>evs. trace (snd (api srv w c)) =
      trace w @ Sent (outgoing w c) # Sent (refresh_config rt) # evs"
  proof (cases "settle (refresh_config rt)
                  (srv (trace w @ [Sent (outgoing w c)]) (refresh_config rt))")
    case (Inl e)
    from m r rt Inl have "api srv w c =
        (Inl e, clear_and_redirect (sent (refresh_config rt) (sent (outgoing w c) w)))"
      by (rule api_refresh_failed)
    then show ?thesis by simp
  next
    case (Inr r2)
    show ?thesis
    proof (cases "destructure r2")
      case (Inl e)
      from m r rt Inr Inl have "api srv w c =
          (Inl e, clear_and_redirect (sent (refresh_config rt) (sent (outgoing w c) w)))"
        by (rule api_refresh_malformed)
      then show ?thesis by simp
    next
      case d: (Inr p)
      obtain av nv where p: "p = (av, nv)" by (cases p)
      from m r rt Inr d [unfolded p] have "api srv w c =
          api srv (store_pair av nv (sent (refresh_config rt) (sent (outgoing w c) w)))
            (resend_config (outgoing w c) av)"
        by (rule api_refreshed)
      then show ?thesis by (simp add: api_resend)
    qed
  qed
  fix e
  assume "settle (refresh_config rt)
      (srv (trace w @ [Sent (outgoing w c)]) (refresh_config rt)) = Inl e"
  with m r rt have whole: "api srv w c =
      (Inl e, clear_and_redirect (sent (refresh_config rt) (sent (outgoing w c) w)))"
    by (rule api_refresh_failed)
  then show "fst (api srv w c) = Inl e" by simp
  from whole show "trace (snd (api srv w c)) =
      trace w @ [Sent (outgoing w c), Sent (refresh_config rt)]"
    by simp
  from whole show "refresh_calls (trace (snd (api srv w c))) = refresh_calls (trace w) + 1"
    by simp
qed

theorem refresh_call_not_intercepted_witness:
  "getItem stored_world ''access_token'' = Some ''a1''
   \<and> headers (refresh_config ''r1'') ''Authorization'' = None
   \<and> \<not> retry podcasts_request
   \<and> backend_revoked (trace stored_world) (outgoing stored_world podcasts_request)
       = Reply unauthorized
   \<and> status unauthorized = 401
   \<and> getItem stored_world ''refresh_token'' = Some ''r1''
   \<and> settle (refresh_config ''r1'')
        (backend_revoked (trace stored_world @ [Sent (outgoing stored_world podcasts_request)])
           (refresh_config ''r1''))
       = Inl (AxiosError (refresh_config ''r1'') (Some unauthorized))
   \<and> fst (api backend_revoked stored_world podcasts_request)
       = Inl (AxiosError (refresh_config ''r1'') (Some unauthorized))
   \<and> trace (snd (api backend_revoked stored_world podcasts_request))
       = [Sent (outgoing stored_world podcasts_request), Sent (refresh_config ''r1'')]
   \<and> refresh_calls (trace (snd (api backend_revoked stored_world podcasts_request))) = 1"
proof -
  have hyps: "\<not> retry podcasts_request
      \<and> backend_revoked (trace stored_world) (outgoing stored_world podcasts_request)
          = Reply unauthorized
      \<and> status unauthorized = 401
      \<and> getItem stored_world ''refresh_token'' = Some ''r1'' \<and> ''r1'' \<noteq> []"
    by (simp add: podcasts_request_def backend_revoked_def unauthorized_def getItem_def
        stored_world_def)
  have rejected: "settle (refresh_config ''r1'')
      (backend_revoked (trace stored_world @ [Sent (outgoing stored_world podcasts_request)])
         (refresh_config ''r1''))
      = Inl (AxiosError (refresh_config ''r1'') (Some unauthorized))"
    by (simp add: settle_def backend_revoked_def unauthorized_def)
  have tok: "getItem stored_world ''access_token'' = Some ''a1''"
    by (simp add: getItem_def stored_world_def)
  have empty: "trace stored_world = []"
    by (simp add: stored_world_def)
  from refresh_call_not_intercepted [of "''r1''" backend_revoked stored_world podcasts_request
      unauthorized]
  have "headers (refresh_config ''r1'') ''Authorization'' = None"
    and "fst (api backend_revoked stored_world podcasts_request)
          = Inl (AxiosError (refresh_config ''r1'') (Some unauthorized))
        \<and> trace (snd (api backend_revoked stored_world podcasts_request)) =
            trace stored_world
              @ [Sent (outgoing stored_world podcasts_request), Sent (refresh_config ''r1'')]
        \<and> refresh_calls (trace (snd (api backend_revoked stored_world podcasts_request)))
            = refresh_calls (trace stored_world) + 1"
    using hyps rejected by blast+
  with hyps rejected tok empty show ?thesis by simp
qed

end
